theory Spec2Isabelle
  imports Main
begin

section \<open>Data model (frontend/App.tsx, services/api.ts)\<close>

text \<open>
  A JavaScript \<open>Date\<close> is a number of milliseconds since the epoch, or the invalid date
  that \<open>new Date(s)\<close> yields on a string it cannot parse. A comparison \<open>a >= b\<close> of two
  dates compares the numbers and is false as soon as one side is invalid (NaN).
\<close>

datatype Date = Date int | InvalidDate

fun date_ge :: "Date \<Rightarrow> Date \<Rightarrow> bool" where
  "date_ge (Date a) (Date b) = (b \<le> a)"
| "date_ge _ _ = False"

text \<open>\<open>status: 'processing' | 'completed' | 'error'\<close>\<close>

datatype Status = StProcessing | StCompleted | StError

text \<open>\<open>export type AppView = 'upload' | 'editor' | 'batch' | 'stored' | 'processing'\<close>\<close>

datatype AppView = Upload | Editor | Batch | Stored | Processing

text \<open>
  \<open>interface FileStatus\<close>, the snapshot returned by \<open>api.getFileStatus\<close>. The two date
  fields are strings on the wire; they are kept here as the \<open>Date\<close> that \<open>new Date(...)\<close>
  makes of them. \<open>pages_data\<close> is opaque to this development.
\<close>

record FileStatus =
  api_id :: string
  api_name :: string
  api_status :: Status
  api_progress :: int
  api_progress_message :: "string option"
  api_upload_date :: Date
  api_expiry_date :: Date
  api_file_size :: int
  api_word_count :: int
  api_char_count :: int
  api_line_count :: int
  api_extracted_text :: string
  api_pages_data :: "string list option"
  api_error :: "string option"

text \<open>\<open>export type ProcessedFile\<close>; \<open>originalFile\<close> is the name of the browser file, if any.\<close>

record ProcessedFile =
  pf_id :: string
  pf_name :: string
  uploadDate :: Date
  expiryDate :: Date
  pf_status :: Status
  extractedText :: string
  originalFile :: "string option"
  pf_progress :: int
  pf_progress_message :: "string option"
  fileSize :: int
  wordCount :: int
  charCount :: int
  lineCount :: int
  pf_pages_data :: "string list option"
  pf_error :: "string option"

text \<open>
  What \<open>toast.success\<close> and \<open>toast.error\<close> of the \<open>sonner\<close> library are called with: title,
  description and, for the passive completion notice, the file id its \<open>View\<close> action opens.
\<close>

datatype Toast =
  ToastSuccess string string "string option"
| ToastError string string

text \<open>
  A callback handed to \<open>setTimeout\<close>. The only one the job lifecycle uses is the delayed
  navigation to the editor, which closes over the id and the name of the completed file.
\<close>

datatype TimeoutCallback = AutoNavigate string string

text \<open>
  The \<open>useState\<close> cells of \<open>App\<close> that the job lifecycle reads or writes, the toasts shown
  so far, the \<open>setTimeout\<close> callbacks not yet fired (with their delay in ms), and, for each
  file id, the number of \<open>api.getFileStatus\<close> requests sent and not yet answered.
\<close>

record AppState =
  currentView :: AppView
  previousView :: AppView
  files :: "ProcessedFile list"
  currentFileId :: "string option"
  processingFileId :: "string option"
  processingFileIds :: "string set"
  toasts :: "Toast list"
  timeouts :: "(nat \<times> TimeoutCallback) list"
  pendingFetches :: "string \<Rightarrow> nat"

definition initialAppState :: AppState where
  "initialAppState =
     \<lparr> currentView = Upload, previousView = Upload, files = [], currentFileId = None,
       processingFileId = None, processingFileIds = {}, toasts = [], timeouts = [],
       pendingFetches = (\<lambda>fid. 0) \<rparr>"

section \<open>View controller (frontend/App.tsx)\<close>

definition navigateTo :: "AppView \<Rightarrow> AppState \<Rightarrow> AppState" where
  "navigateTo view s =
     (if currentView s \<noteq> view
      then s\<lparr>previousView := currentView s, currentView := view\<rparr>
      else s)"

definition goBack :: "AppState \<Rightarrow> AppState" where
  "goBack s =
     (let targetView = (if previousView s \<noteq> currentView s then previousView s else Upload)
      in s\<lparr>previousView := Upload, currentView := targetView\<rparr>)"

section \<open>Registry writes and the inline poller (frontend/App.tsx)\<close>

text \<open>What a rejected promise of the \<open>api\<close> client carries: the message of the error.\<close>

datatype ApiError = ApiError string

fun errorMessage :: "ApiError \<Rightarrow> string" where
  "errorMessage (ApiError m) = (if m = [] then ''Unknown error'' else m)"

definition convertApiFileToProcessedFile :: "FileStatus \<Rightarrow> ProcessedFile" where
  "convertApiFileToProcessedFile apiFile =
     \<lparr> pf_id = api_id apiFile,
       pf_name = api_name apiFile,
       uploadDate = api_upload_date apiFile,
       expiryDate = api_expiry_date apiFile,
       pf_status = api_status apiFile,
       extractedText = api_extracted_text apiFile,
       originalFile = None,
       pf_progress = api_progress apiFile,
       pf_progress_message = api_progress_message apiFile,
       fileSize = api_file_size apiFile,
       wordCount = api_word_count apiFile,
       charCount = api_char_count apiFile,
       lineCount = api_line_count apiFile,
       pf_pages_data = api_pages_data apiFile,
       pf_error = api_error apiFile \<rparr>"

text \<open>
  The single-file branch of \<open>handleFilesUploaded\<close> (\<open>isBatch = false\<close>). \<open>response\<close> is the
  outcome of \<open>api.uploadFile\<close>; \<open>tNew\<close> is the clock read by \<open>new Date()\<close> and \<open>tNow\<close> the one
  read by \<open>Date.now()\<close>, both in milliseconds.
\<close>

definition handleFilesUploaded_single ::
  "(ApiError + string) \<Rightarrow> string \<Rightarrow> int \<Rightarrow> int \<Rightarrow> int \<Rightarrow> AppState \<Rightarrow> AppState" where
  "handleFilesUploaded_single response fname fsize tNew tNow s =
     (case response of
        Inl e \<Rightarrow> s\<lparr>toasts := toasts s @ [ToastError ''Upload failed'' (errorMessage e)]\<rparr>
      | Inr file_id \<Rightarrow>
          (let s1 = s\<lparr>toasts := toasts s @
                       [ToastSuccess ''File uploaded successfully'' ''Starting text extraction...'' None]\<rparr>;
               s2 = s1\<lparr>processingFileIds := insert file_id (processingFileIds s1)\<rparr>;
               initialFile =
                 \<lparr> pf_id = file_id,
                   pf_name = fname,
                   uploadDate = Date tNew,
                   expiryDate = Date (tNow + 2 * 24 * 60 * 60 * 1000),
                   pf_status = StProcessing,
                   extractedText = [],
                   originalFile = Some fname,
                   pf_progress = 0,
                   pf_progress_message = Some ''Starting...'',
                   fileSize = fsize,
                   wordCount = 0,
                   charCount = 0,
                   lineCount = 0,
                   pf_pages_data = Some [],
                   pf_error = None \<rparr>;
               s3 = s2\<lparr>files := files s2 @ [initialFile]\<rparr>;
               s4 = s3\<lparr>currentFileId := Some file_id\<rparr>;
               s5 = s4\<lparr>processingFileId := Some file_id\<rparr>
           in navigateTo Processing s5))"

text \<open>
  The registry write of \<open>pollFile\<close>:
  \<open>setFiles(prev => prev.map(f => f.id === apiFile.id ? convertApiFileToProcessedFile(apiFile) : f))\<close>.
\<close>

definition updateFileData :: "FileStatus \<Rightarrow> AppState \<Rightarrow> AppState" where
  "updateFileData apiFile s =
     s\<lparr>files := map (\<lambda>f. if pf_id f = api_id apiFile
                           then convertApiFileToProcessedFile apiFile else f) (files s)\<rparr>"

text \<open>
  \<open>pollFile\<close> is an \<open>async\<close> function with one \<open>await\<close>. \<open>pollFile_send\<close> is the part that runs
  when it is called: it sends the request, with no condition. \<open>pollFile\<close> is the part that
  runs when the request is answered, with \<open>r\<close> the answer. \<open>cProcessingFileId\<close> and
  \<open>cCurrentView\<close> are the values of \<open>processingFileId\<close> and \<open>currentView\<close> that the closure
  captured; the functional updates (\<open>setFiles(prev => ...)\<close>) read the state itself.
\<close>

definition pollFile_send :: "string \<Rightarrow> AppState \<Rightarrow> AppState" where
  "pollFile_send fid s = s\<lparr>pendingFetches := (pendingFetches s)(fid := pendingFetches s fid + 1)\<rparr>"

definition pollFile ::
  "string option \<Rightarrow> AppView \<Rightarrow> string \<Rightarrow> (ApiError + FileStatus) \<Rightarrow> AppState \<Rightarrow> AppState" where
  "pollFile cProcessingFileId cCurrentView fid r s =
     (let s0 = s\<lparr>pendingFetches := (pendingFetches s)(fid := pendingFetches s fid - 1)\<rparr>
      in case r of
           Inl e \<Rightarrow> s0\<lparr>processingFileIds := processingFileIds s0 - {fid}\<rparr>
         | Inr apiFile \<Rightarrow>
             (let s1 = updateFileData apiFile s0
              in if api_status apiFile = StCompleted \<or> api_status apiFile = StError
                 then
                   (let s2 = s1\<lparr>processingFileIds := processingFileIds s1 - {api_id apiFile}\<rparr>
                    in if api_status apiFile = StCompleted
                       then
                         (if cProcessingFileId = Some (api_id apiFile) \<and> cCurrentView = Processing
                          then s2\<lparr>timeouts := timeouts s2 @
                                    [(2000, AutoNavigate (api_id apiFile) (api_name apiFile))]\<rparr>
                          else s2\<lparr>toasts := toasts s2 @
                                    [ToastSuccess (''Processing complete: '' @ api_name apiFile)
                                       ''File is ready for editing'' (Some (api_id apiFile))]\<rparr>)
                       else
                         (let s3 = s2\<lparr>toasts := toasts s2 @
                                      [ToastError ''Processing failed''
                                         (case api_error apiFile of
                                            None \<Rightarrow> ''Unknown error''
                                          | Some m \<Rightarrow> if m = [] then ''Unknown error'' else m)]\<rparr>
                          in if cProcessingFileId = Some (api_id apiFile)
                             then s3\<lparr>processingFileId := None\<rparr> else s3))
                 else s1))"

text \<open>
  The polling effect of \<open>App\<close>: for every id of \<open>processingFileIds\<close> it calls \<open>pollFile()\<close> at
  once and arms \<open>setInterval(pollFile, 2000)\<close>. The intervals live until the effect is
  cleaned up, so a tick for \<open>fid\<close> calls \<open>pollFile()\<close> as long as \<open>fid\<close> is in the set.
\<close>

definition pollingEffect :: "AppState \<Rightarrow> AppState" where
  "pollingEffect s =
     s\<lparr>pendingFetches := (\<lambda>fid. if fid \<in> processingFileIds s
                                  then pendingFetches s fid + 1 else pendingFetches s fid)\<rparr>"

definition pollingIntervalTick :: "string \<Rightarrow> AppState \<Rightarrow> AppState" where
  "pollingIntervalTick fid s = (if fid \<in> processingFileIds s then pollFile_send fid s else s)"

text \<open>The body of the delayed callback of \<open>pollFile\<close>, and the firing of the oldest timeout.\<close>

fun runTimeout :: "TimeoutCallback \<Rightarrow> AppState \<Rightarrow> AppState" where
  "runTimeout (AutoNavigate fid fname) s =
     s\<lparr>currentFileId := Some fid, currentView := Editor,
       toasts := toasts s @
         [ToastSuccess (''Processing complete: '' @ fname) ''All pages processed successfully!'' None]\<rparr>"

definition fireTimeout :: "AppState \<Rightarrow> AppState" where
  "fireTimeout s =
     (case timeouts s of
        [] \<Rightarrow> s
      | (delay, cb) # rest \<Rightarrow> runTimeout cb (s\<lparr>timeouts := rest\<rparr>))"

text \<open>
  The handlers \<open>App\<close> passes to its pages: \<open>onViewStored\<close> of the processing screen
  (\<open>setProcessingFileId(null); navigateTo('stored')\<close>) and \<open>onSelectFile\<close> of the batch and
  stored pages (\<open>setCurrentFileId(fileId); navigateTo('editor')\<close>).
\<close>

definition processingScreen_onViewStored :: "AppState \<Rightarrow> AppState" where
  "processingScreen_onViewStored s = navigateTo Stored (s\<lparr>processingFileId := None\<rparr>)"

definition onSelectFile :: "string \<Rightarrow> AppState \<Rightarrow> AppState" where
  "onSelectFile fid s = navigateTo Editor (s\<lparr>currentFileId := Some fid\<rparr>)"

text \<open>
  \<open>initializeApp\<close>, as far as it writes the cells above: \<open>r\<close> is the list answered by
  \<open>api.getAllFiles\<close>, or the error thrown by it or by \<open>api.checkStatus\<close> before it.
\<close>

definition initializeApp :: "(ApiError + FileStatus list) \<Rightarrow> AppState \<Rightarrow> AppState" where
  "initializeApp r s =
     (case r of
        Inl e \<Rightarrow>
          s\<lparr>toasts := toasts s @
               [ToastError ''Connection Error''
                  (case e of ApiError m \<Rightarrow>
                     if m = []
                     then ''Service temporarily unavailable. Please try again in a few moments.''
                     else m)]\<rparr>
      | Inr apiFiles \<Rightarrow>
          s\<lparr>files := map convertApiFileToProcessedFile apiFiles,
            processingFileIds :=
              set (map api_id (filter (\<lambda>f. api_status f = StProcessing) apiFiles))\<rparr>)"

section \<open>Eviction sweep (hooks/useAutoCleanup.ts and its caller in App.tsx)\<close>

text \<open>
  \<open>checkExpiredFiles\<close>: \<open>now\<close> is read once, then the loop walks the \<open>files\<close> the hook was
  given. \<open>deleteFile\<close> tells, for each id, whether \<open>api.deleteFile\<close> resolves or rejects;
  the rejection is caught and logged, and the callback is not reached.
\<close>

fun checkExpiredFiles ::
  "Date \<Rightarrow> (string \<Rightarrow> ApiError + unit) \<Rightarrow> ProcessedFile list \<Rightarrow> (string \<Rightarrow> 's \<Rightarrow> 's) \<Rightarrow> 's \<Rightarrow> 's" where
  "checkExpiredFiles now deleteFile [] onFileDeleted s = s"
| "checkExpiredFiles now deleteFile (file # rest) onFileDeleted s =
     checkExpiredFiles now deleteFile rest onFileDeleted
       (if date_ge now (expiryDate file)
        then (case deleteFile (pf_id file) of
                Inr u \<Rightarrow> onFileDeleted (pf_id file) s
              | Inl e \<Rightarrow> s)
        else s)"

text \<open>
  The callback \<open>App\<close> passes to \<open>useAutoCleanup\<close>; \<open>cCurrentFileId\<close> is the \<open>currentFileId\<close>
  the closure captured.
\<close>

definition onFileDeleted :: "string option \<Rightarrow> string \<Rightarrow> AppState \<Rightarrow> AppState" where
  "onFileDeleted cCurrentFileId fid s =
     (let s1 = s\<lparr>files := filter (\<lambda>f. pf_id f \<noteq> fid) (files s)\<rparr>
      in if cCurrentFileId = Some fid
         then s1\<lparr>currentFileId := None, currentView := Upload\<rparr>
         else s1)"

text \<open>One sweep of \<open>useAutoCleanup(files, (fileId) => ...)\<close> as \<open>App\<close> calls it.\<close>

definition useAutoCleanup :: "Date \<Rightarrow> (string \<Rightarrow> ApiError + unit) \<Rightarrow> AppState \<Rightarrow> AppState" where
  "useAutoCleanup now deleteFile s =
     checkExpiredFiles now deleteFile (files s) (onFileDeleted (currentFileId s)) s"

section \<open>Polling hook (hooks/useFilePolling.ts)\<close>

text \<open>
  The options of the hook. The callbacks act on a state \<open>'a\<close> of the caller and are taken
  not to throw.
\<close>

record 'a UseFilePollingOptions =
  fileId :: string
  onUpdate :: "FileStatus \<Rightarrow> 'a \<Rightarrow> 'a"
  onComplete :: "(FileStatus \<Rightarrow> 'a \<Rightarrow> 'a) option"
  onError :: "(ApiError \<Rightarrow> 'a \<Rightarrow> 'a) option"
  interval :: nat
  enabled :: bool

text \<open>
  The state of one hook instance: the two refs, the \<open>retryCount\<close> of the effect, the number
  of \<open>api.getFileStatus\<close> requests sent and not yet answered, and the caller's state.
  \<open>intervalRef\<close> holds the period of the armed interval, or \<open>None\<close> for \<open>null\<close>.
\<close>

record 'a Poller =
  intervalRef :: "nat option"
  isPollingRef :: bool
  retryCount :: nat
  inFlight :: nat
  host :: 'a

definition maxRetries :: nat where
  "maxRetries = 3"

text \<open>\<open>pollFileStatus\<close> up to its \<open>await\<close>: the guard, the flag, the request.\<close>

definition pollFileStatus_call :: "'a UseFilePollingOptions \<Rightarrow> 'a Poller \<Rightarrow> 'a Poller" where
  "pollFileStatus_call opts p =
     (if isPollingRef p then p
      else p\<lparr>isPollingRef := True, inFlight := inFlight p + 1\<rparr>)"

text \<open>The \<open>try\<close> block after the \<open>await\<close>: a rejected request throws before any write.\<close>

definition pollFileStatus_try ::
  "'a UseFilePollingOptions \<Rightarrow> (ApiError + FileStatus) \<Rightarrow> 'a Poller \<Rightarrow> ApiError + 'a Poller" where
  "pollFileStatus_try opts r p =
     (case r of
        Inl e \<Rightarrow> Inl e
      | Inr file \<Rightarrow>
          Inr (let p1 = p\<lparr>host := onUpdate opts file (host p)\<rparr>;
                   p2 = p1\<lparr>retryCount := 0\<rparr>
               in if api_status file = StCompleted \<or> api_status file = StError
                  then
                    (let p3 = p2\<lparr>intervalRef := None\<rparr>
                     in if api_status file = StCompleted
                        then (case onComplete opts of
                                Some h \<Rightarrow> p3\<lparr>host := h file (host p3)\<rparr>
                              | None \<Rightarrow> p3)
                        else p3)
                  else p2))"

definition pollFileStatus_catch :: "'a UseFilePollingOptions \<Rightarrow> ApiError \<Rightarrow> 'a Poller \<Rightarrow> 'a Poller" where
  "pollFileStatus_catch opts e p =
     (let p1 = p\<lparr>retryCount := retryCount p + 1\<rparr>
      in if retryCount p1 \<ge> maxRetries
         then
           (let p2 = p1\<lparr>intervalRef := None\<rparr>
            in case onError opts of
                 Some h \<Rightarrow> p2\<lparr>host := h e (host p2)\<rparr>
               | None \<Rightarrow> p2)
         else p1)"

definition pollFileStatus_finally :: "'a Poller \<Rightarrow> 'a Poller" where
  "pollFileStatus_finally p = p\<lparr>isPollingRef := False\<rparr>"

text \<open>\<open>pollFileStatus\<close> from the answer \<open>r\<close> of the request on: \<open>try\<close>, \<open>catch\<close>, \<open>finally\<close>.\<close>

definition pollFileStatus_resume ::
  "'a UseFilePollingOptions \<Rightarrow> (ApiError + FileStatus) \<Rightarrow> 'a Poller \<Rightarrow> 'a Poller" where
  "pollFileStatus_resume opts r p =
     (let p0 = p\<lparr>inFlight := inFlight p - 1\<rparr>
      in pollFileStatus_finally
           (case pollFileStatus_try opts r p0 of
              Inl e \<Rightarrow> pollFileStatus_catch opts e p0
            | Inr p' \<Rightarrow> p'))"

text \<open>The effect: a fresh \<open>retryCount\<close>, the initial poll, then the interval.\<close>

definition useFilePolling_effect :: "'a UseFilePollingOptions \<Rightarrow> 'a Poller \<Rightarrow> 'a Poller" where
  "useFilePolling_effect opts p =
     (if \<not> enabled opts \<or> fileId opts = [] then p
      else (let p1 = pollFileStatus_call opts (p\<lparr>retryCount := 0\<rparr>)
            in p1\<lparr>intervalRef := Some (interval opts)\<rparr>))"

definition useFilePolling_cleanup :: "'a Poller \<Rightarrow> 'a Poller" where
  "useFilePolling_cleanup p = p\<lparr>intervalRef := None\<rparr>"

text \<open>
  What can happen to a mounted hook: its interval fires (only while it is armed), or the
  pending request is answered (only when there is one).
\<close>

datatype PollEvent = Tick | Response "ApiError + FileStatus"

fun pollerStep :: "'a UseFilePollingOptions \<Rightarrow> PollEvent \<Rightarrow> 'a Poller \<Rightarrow> 'a Poller" where
  "pollerStep opts Tick p =
     (case intervalRef p of None \<Rightarrow> p | Some i \<Rightarrow> pollFileStatus_call opts p)"
| "pollerStep opts (Response r) p =
     (if inFlight p = 0 then p else pollFileStatus_resume opts r p)"

fun pollerRun :: "'a UseFilePollingOptions \<Rightarrow> PollEvent list \<Rightarrow> 'a Poller \<Rightarrow> 'a Poller" where
  "pollerRun opts [] p = p"
| "pollerRun opts (ev # evs) p = pollerRun opts evs (pollerStep opts ev p)"

definition newPoller :: "'a \<Rightarrow> 'a Poller" where
  "newPoller h = \<lparr> intervalRef = None, isPollingRef = False, retryCount = 0, inFlight = 0, host = h \<rparr>"



section \<open>A concrete job, used to run the definitions\<close>

text \<open>
  The state after the upload of one file at time 0, for which the server answered with
  the id \<open>J\<close>, and a status snapshot of that job as the server may return it.
\<close>

definition uploadedJ :: AppState where
  "uploadedJ = handleFilesUploaded_single (Inr ''J'') ''J.pdf'' 1024 0 0 initialAppState"

definition snapshotJ :: "Status \<Rightarrow> int \<Rightarrow> Date \<Rightarrow> FileStatus" where
  "snapshotJ st pr ex =
     \<lparr> api_id = ''J'', api_name = ''J.pdf'', api_status = st, api_progress = pr,
       api_progress_message = None, api_upload_date = Date 0, api_expiry_date = ex,
       api_file_size = 1024, api_word_count = 0, api_char_count = 0, api_line_count = 0,
       api_extracted_text = [], api_pages_data = None, api_error = None \<rparr>"

text \<open>The hook wired to the registry write of \<open>App\<close>, with and without an \<open>onError\<close>.\<close>

definition pollingJ :: "AppState UseFilePollingOptions" where
  "pollingJ =
     \<lparr> fileId = ''J'', onUpdate = updateFileData, onComplete = None, onError = None,
       interval = 2000, enabled = True \<rparr>"

text \<open>
  The state after \<open>App\<close> has started and the server has listed one file, the completed
  job \<open>J\<close> that expires at 172800000.
\<close>

definition loadedJ :: AppState where
  "loadedJ = initializeApp (Inr [snapshotJ StCompleted 100 (Date 172800000)]) initialAppState"

text \<open>
  The relation between the flag and the requests of one hook instance that every step
  of the hook preserves.
\<close>

definition pollerInv :: "'a Poller \<Rightarrow> bool" where
  "pollerInv p \<longleftrightarrow> inFlight p = (if isPollingRef p then 1 else 0)"

section \<open>Auxiliary facts\<close>

subsection \<open>The registry after each operation\<close>

lemma files_onFileDeleted:
  "files (onFileDeleted c fid s) = filter (\<lambda>f. pf_id f \<noteq> fid) (files s)"
  by (simp add: onFileDeleted_def Let_def)

lemma files_checkExpiredFiles:
  "files (checkExpiredFiles now del xs (onFileDeleted c) s) =
     filter (\<lambda>f. \<not> (\<exists>x \<in> set xs. pf_id x = pf_id f \<and> date_ge now (expiryDate x)
                          \<and> del (pf_id x) = Inr ())) (files s)"
proof (induction xs arbitrary: s)
  case Nil
  then show ?case by simp
next
  case (Cons x xs)
  show ?case
    by (cases "del (pf_id x)")
       (auto simp add: Cons.IH files_onFileDeleted intro!: filter_cong)
qed

lemma ids_useAutoCleanup:
  "j \<in> pf_id ` set (files (useAutoCleanup now del s)) \<longleftrightarrow>
     j \<in> pf_id ` set (files s)
     \<and> \<not> (\<exists>x \<in> set (files s). pf_id x = j \<and> date_ge now (expiryDate x) \<and> del j = Inr ())"
  unfolding useAutoCleanup_def files_checkExpiredFiles by auto

lemma view_onFileDeleted:
  "currentFileId (onFileDeleted c fid s) = (if c = Some fid then None else currentFileId s)"
  "currentView (onFileDeleted c fid s) = (if c = Some fid then Upload else currentView s)"
  by (simp_all add: onFileDeleted_def Let_def)

lemma view_checkExpiredFiles:
  "(currentFileId (checkExpiredFiles now del xs (onFileDeleted c) s),
    currentView (checkExpiredFiles now del xs (onFileDeleted c) s)) =
     (if \<exists>x \<in> set xs. c = Some (pf_id x) \<and> date_ge now (expiryDate x) \<and> del (pf_id x) = Inr ()
      then (None, Upload) else (currentFileId s, currentView s))"
proof (induction xs arbitrary: s)
  case Nil
  then show ?case by simp
next
  case (Cons x xs)
  show ?case
    by (cases "del (pf_id x)") (auto simp add: Cons.IH view_onFileDeleted)
qed

lemma files_handleFilesUploaded_single:
  "files (handleFilesUploaded_single (Inr fid) fname fsize tNew tNow s) =
     files s @
       [\<lparr> pf_id = fid, pf_name = fname, uploadDate = Date tNew,
          expiryDate = Date (tNow + 172800000), pf_status = StProcessing, extractedText = [],
          originalFile = Some fname, pf_progress = 0, pf_progress_message = Some ''Starting...'',
          fileSize = fsize, wordCount = 0, charCount = 0, lineCount = 0,
          pf_pages_data = Some [], pf_error = None \<rparr>]"
  by (simp add: handleFilesUploaded_single_def navigateTo_def Let_def)

lemma files_pollFile_success:
  "files (pollFile c v fid (Inr apiFile) s) =
     map (\<lambda>f. if pf_id f = api_id apiFile then convertApiFileToProcessedFile apiFile else f) (files s)"
  by (simp add: pollFile_def updateFileData_def Let_def)

lemma files_pollFile_failure: "files (pollFile c v fid (Inl e) s) = files s"
  by (simp add: pollFile_def Let_def)

subsection \<open>The uploaded job\<close>

lemma uploadedJ_files:
  "files uploadedJ =
     [\<lparr> pf_id = ''J'', pf_name = ''J.pdf'', uploadDate = Date 0,
        expiryDate = Date 172800000, pf_status = StProcessing, extractedText = [],
        originalFile = Some ''J.pdf'', pf_progress = 0, pf_progress_message = Some ''Starting...'',
        fileSize = 1024, wordCount = 0, charCount = 0, lineCount = 0,
        pf_pages_data = Some [], pf_error = None \<rparr>]"
  by (simp add: uploadedJ_def files_handleFilesUploaded_single initialAppState_def)

lemma uploadedJ_view:
  "currentView uploadedJ = Processing"
  "currentFileId uploadedJ = Some ''J''"
  "processingFileId uploadedJ = Some ''J''"
  "processingFileIds uploadedJ = {''J''}"
  "timeouts uploadedJ = []"
  "pendingFetches uploadedJ = (\<lambda>fid. 0)"
  by (simp_all add: uploadedJ_def handleFilesUploaded_single_def navigateTo_def
      initialAppState_def Let_def)

subsection \<open>One answered request of the hook\<close>

lemma pollFileStatus_resume_failure:
  "pollFileStatus_resume opts (Inl e) p =
     (if retryCount p + 1 \<ge> 3
      then p\<lparr>inFlight := inFlight p - 1, retryCount := retryCount p + 1, intervalRef := None,
             host := (case onError opts of Some h \<Rightarrow> h e (host p) | None \<Rightarrow> host p),
             isPollingRef := False\<rparr>
      else p\<lparr>inFlight := inFlight p - 1, retryCount := retryCount p + 1, isPollingRef := False\<rparr>)"
  by (simp add: pollFileStatus_resume_def pollFileStatus_try_def pollFileStatus_catch_def
      pollFileStatus_finally_def maxRetries_def Let_def split: option.splits)

lemma pollFileStatus_resume_success:
  "pollFileStatus_resume opts (Inr file) p =
     (if api_status file = StProcessing
      then p\<lparr>inFlight := inFlight p - 1, host := onUpdate opts file (host p), retryCount := 0,
             isPollingRef := False\<rparr>
      else p\<lparr>inFlight := inFlight p - 1, retryCount := 0, intervalRef := None,
             host := (if api_status file = StCompleted
                      then (case onComplete opts of
                              Some h \<Rightarrow> h file (onUpdate opts file (host p))
                            | None \<Rightarrow> onUpdate opts file (host p))
                      else onUpdate opts file (host p)),
             isPollingRef := False\<rparr>)"
  by (cases "api_status file")
     (simp_all add: pollFileStatus_resume_def pollFileStatus_try_def
      pollFileStatus_finally_def Let_def split: option.splits)

lemma ticks_without_interval:
  "intervalRef p = None \<Longrightarrow> pollerRun opts (replicate n Tick) p = p"
  by (induction n) simp_all

subsection \<open>The hook never has two requests in flight\<close>

lemma pollerInv_step: "pollerInv p \<Longrightarrow> pollerInv (pollerStep opts ev p)"
proof (cases ev)
  case Tick
  assume "pollerInv p"
  then show ?thesis using Tick
    by (auto simp add: pollerInv_def pollFileStatus_call_def split: option.splits)
next
  case (Response r)
  assume "pollerInv p"
  then show ?thesis using Response
    by (cases r)
       (auto simp add: pollerInv_def pollFileStatus_resume_failure pollFileStatus_resume_success
          split: if_splits)
qed

lemma pollerInv_run: "pollerInv p \<Longrightarrow> pollerInv (pollerRun opts evs p)"
  by (induction evs arbitrary: p) (simp_all add: pollerInv_step)

lemma useFilePolling_at_most_one_in_flight:
  "inFlight (pollerRun opts evs (useFilePolling_effect opts (newPoller h))) \<le> 1"
proof -
  have "pollerInv (useFilePolling_effect opts (newPoller h))"
    by (simp add: pollerInv_def useFilePolling_effect_def newPoller_def pollFileStatus_call_def Let_def)
  then have "pollerInv (pollerRun opts evs (useFilePolling_effect opts (newPoller h)))"
    by (rule pollerInv_run)
  then show ?thesis by (simp add: pollerInv_def split: if_splits)
qed

subsection \<open>What a completed snapshot and an eviction do to the view\<close>

text \<open>
  Both decisions are taken on the values the closure holds: \<open>cp\<close> and \<open>cv\<close> for \<open>pollFile\<close>,
  \<open>c\<close> for the callback of the sweep (see also \<open>view_checkExpiredFiles\<close>).
\<close>

lemma pollFile_completed_by_closure:
  assumes "api_status apiFile = StCompleted"
  shows "(cp = Some (api_id apiFile) \<and> cv = Processing \<longrightarrow>
            (let s' = pollFile cp cv fid (Inr apiFile) s
             in currentView s' = currentView s
                \<and> toasts s' = toasts s
                \<and> timeouts s' = timeouts s @ [(2000, AutoNavigate (api_id apiFile) (api_name apiFile))]
                \<and> (timeouts s = [] \<longrightarrow>
                      currentView (fireTimeout s') = Editor
                      \<and> currentFileId (fireTimeout s') = Some (api_id apiFile))))
       \<and> (\<not> (cp = Some (api_id apiFile) \<and> cv = Processing) \<longrightarrow>
            (let s' = pollFile cp cv fid (Inr apiFile) s
             in currentView s' = currentView s
                \<and> currentFileId s' = currentFileId s
                \<and> timeouts s' = timeouts s
                \<and> toasts s' = toasts s @
                     [ToastSuccess (''Processing complete: '' @ api_name apiFile)
                        ''File is ready for editing'' (Some (api_id apiFile))]))"
  using assms
  by (simp add: pollFile_def updateFileData_def fireTimeout_def Let_def)

lemma useAutoCleanup_own_closure_forces_upload:
  assumes cur: "currentFileId s = Some j"
    and before: "j \<in> pf_id ` set (files s)"
    and after: "j \<notin> pf_id ` set (files (useAutoCleanup now deleteFile s))"
  shows "currentView (useAutoCleanup now deleteFile s) = Upload
         \<and> currentFileId (useAutoCleanup now deleteFile s) = None"
proof -
  from before after obtain x where x: "x \<in> set (files s)" "pf_id x = j"
      "date_ge now (expiryDate x)" "deleteFile j = Inr ()"
    unfolding ids_useAutoCleanup by auto
  then have "\<exists>x \<in> set (files s). currentFileId s = Some (pf_id x)
                \<and> date_ge now (expiryDate x) \<and> deleteFile (pf_id x) = Inr ()"
    using cur by auto
  then have "(currentFileId (useAutoCleanup now deleteFile s),
              currentView (useAutoCleanup now deleteFile s)) = (None, Upload)"
    unfolding useAutoCleanup_def view_checkExpiredFiles by (rule if_P)
  then show ?thesis by simp
qed

section \<open>Eviction\<close>

text \<open>
  C1. The eviction sweep removes a job from the tracked file list if and only if the
  sweep time is at or past the job's expiry date and the external delete call succeeded;
  in particular, when the delete throws, the job stays in the list for the next sweep.
  The ids of the tracked files are taken to be distinct, as the data model has it.
\<close>

theorem sweep_removes_iff_expired_and_deleted:
  assumes "distinct (map pf_id (files s))" and "f \<in> set (files s)"
  shows "f \<notin> set (files (useAutoCleanup now deleteFile s))
         \<longleftrightarrow> date_ge now (expiryDate f) \<and> deleteFile (pf_id f) = Inr ()"
proof -
  have "\<And>x. x \<in> set (files s) \<Longrightarrow> pf_id x = pf_id f \<Longrightarrow> x = f"
    using assms by (meson distinct_map inj_onD)
  then show ?thesis
    using assms(2) by (auto simp add: useAutoCleanup_def files_checkExpiredFiles)
qed

theorem sweep_removes_iff_expired_and_deleted_witness:
  "distinct (map pf_id (files uploadedJ))
   \<and> hd (files uploadedJ) \<in> set (files uploadedJ)
   \<and> hd (files uploadedJ) \<notin> set (files (useAutoCleanup (Date 172800000) (\<lambda>fid. Inr ()) uploadedJ))
   \<and> hd (files uploadedJ) \<in>
       set (files (useAutoCleanup (Date 172800000) (\<lambda>fid. Inl (ApiError ''timeout'')) uploadedJ))
   \<and> hd (files uploadedJ) \<in> set (files (useAutoCleanup (Date 172799999) (\<lambda>fid. Inr ()) uploadedJ))"
proof -
  have d: "distinct (map pf_id (files uploadedJ))" and m: "hd (files uploadedJ) \<in> set (files uploadedJ)"
    by (simp_all add: uploadedJ_files)
  show ?thesis
    using d m
      sweep_removes_iff_expired_and_deleted [OF d m, of "Date 172800000" "\<lambda>fid. Inr ()"]
      sweep_removes_iff_expired_and_deleted [OF d m, of "Date 172800000" "\<lambda>fid. Inl (ApiError ''timeout'')"]
      sweep_removes_iff_expired_and_deleted [OF d m, of "Date 172799999" "\<lambda>fid. Inr ()"]
    by (simp add: uploadedJ_files)
qed

text \<open>
  C7 on a sweep whose delete is answered after the user has opened the file. \<open>App\<close> has
  loaded the completed job \<open>J\<close> and shows the stored files, with no current file. At time
  172800000 the sweep of that render finds \<open>J\<close> expired and sends \<open>api.deleteFile\<close>; before
  the answer the user opens \<open>J\<close> (\<open>onSelectFile\<close>); then the delete succeeds. The callback
  of the sweep compares \<open>J\<close> with the \<open>currentFileId\<close> of its own render, which is \<open>null\<close>:
  \<open>J\<close> leaves the file list, and the view stays on \<open>editor\<close> with \<open>currentFileId = J\<close>.
\<close>

theorem stale_sweep_leaves_view_on_removed_file:
  "(let shown = navigateTo Stored loadedJ;
        opened = onSelectFile ''J'' shown;
        swept = checkExpiredFiles (Date 172800000) (\<lambda>fid. Inr ()) (files shown)
                  (onFileDeleted (currentFileId shown)) opened
    in currentView shown = Stored
       \<and> currentFileId shown = None
       \<and> map pf_id (files shown) = [''J'']
       \<and> map pf_status (files shown) = [StCompleted]
       \<and> currentFileId opened = Some ''J''
       \<and> currentView opened = Editor
       \<and> files swept = []
       \<and> currentFileId swept = Some ''J''
       \<and> currentView swept = Editor)"
  by (simp add: loadedJ_def initializeApp_def initialAppState_def navigateTo_def onSelectFile_def
      onFileDeleted_def snapshotJ_def convertApiFileToProcessedFile_def Let_def)

section \<open>Navigation\<close>

text \<open>
  C8. For every view state, \<open>goBack()\<close> sets \<open>currentView\<close> to \<open>previousView\<close> when the two
  differ and to \<open>upload\<close> otherwise, and in both cases leaves \<open>previousView = upload\<close>;
  consequently, when a \<open>goBack()\<close> lands on \<open>upload\<close>, a second \<open>goBack()\<close> changes nothing.
\<close>

theorem goBack_target_and_reset:
  "currentView (goBack s) = (if previousView s \<noteq> currentView s then previousView s else Upload)
   \<and> previousView (goBack s) = Upload
   \<and> (currentView (goBack s) = Upload \<longrightarrow> goBack (goBack s) = goBack s)"
  by (simp add: goBack_def)

theorem goBack_target_and_reset_witness:
  "currentView (goBack (navigateTo Stored initialAppState)) = Upload
   \<and> previousView (goBack (navigateTo Stored initialAppState)) = Upload
   \<and> goBack (goBack (navigateTo Stored initialAppState)) = goBack (navigateTo Stored initialAppState)"
  using goBack_target_and_reset [of "navigateTo Stored initialAppState"]
  by (simp add: navigateTo_def initialAppState_def)

text \<open>
  C6 on a status request answered after the user has left the processing screen. Job \<open>J\<close>
  is uploaded and the polling effect sends the status request, from the render in which
  \<open>processingFileId = J\<close> and \<open>currentView = processing\<close>. Before the answer the user
  presses \<open>View stored\<close>, so the view is \<open>stored\<close> and \<open>processingFileId\<close> is \<open>null\<close>. The
  request is then answered with status \<open>completed\<close>. \<open>pollFile\<close> tests the values of its own
  render: it arms the 2000 ms timeout and shows no passive notification, and the firing
  of the timeout moves the view from \<open>stored\<close> to \<open>editor\<close>.
\<close>

theorem stale_poll_forces_editor:
  "(let sent = pollingEffect uploadedJ;
        left = processingScreen_onViewStored sent;
        answered = pollFile (processingFileId uploadedJ) (currentView uploadedJ) ''J''
                     (Inr (snapshotJ StCompleted 100 (Date 172800000))) left
    in processingFileId uploadedJ = Some ''J''
       \<and> currentView uploadedJ = Processing
       \<and> pendingFetches sent ''J'' = 1
       \<and> currentView left = Stored
       \<and> processingFileId left = None
       \<and> currentView answered = Stored
       \<and> toasts answered = toasts left
       \<and> timeouts answered = [(2000, AutoNavigate ''J'' ''J.pdf'')]
       \<and> currentView (fireTimeout answered) = Editor
       \<and> currentFileId (fireTimeout answered) = Some ''J'')"
  by (simp add: uploadedJ_view pollingEffect_def processingScreen_onViewStored_def navigateTo_def
      pollFile_def updateFileData_def fireTimeout_def snapshotJ_def Let_def)

section \<open>Registry updates\<close>

text \<open>
  C4, as the code has it. A successful poll overwrites the stored record of the job with
  the snapshot: afterwards the stored progress and status of every record with the
  snapshot's id are those of the snapshot, whether or not the progress is lower than
  the one stored before.
\<close>

theorem poll_update_overwrites_progress:
  assumes "i < length (files s)" and "pf_id (files s ! i) = api_id apiFile"
  shows "pf_progress (files (pollFile c v fid (Inr apiFile) s) ! i) = api_progress apiFile
         \<and> pf_status (files (pollFile c v fid (Inr apiFile) s) ! i) = api_status apiFile"
  using assms by (simp add: files_pollFile_success convertApiFileToProcessedFile_def)

theorem poll_update_overwrites_progress_witness:
  "(0::nat) < length (files uploadedJ)
   \<and> pf_id (files uploadedJ ! 0) = api_id (snapshotJ StProcessing 50 (Date 172800000))
   \<and> pf_progress (files (pollFile (Some ''J'') Processing ''J''
                     (Inr (snapshotJ StProcessing 50 (Date 172800000))) uploadedJ) ! 0) = 50
   \<and> pf_status (files (pollFile (Some ''J'') Processing ''J''
                     (Inr (snapshotJ StProcessing 50 (Date 172800000))) uploadedJ) ! 0) = StProcessing"
proof -
  have i: "(0::nat) < length (files uploadedJ)"
    by (simp add: uploadedJ_files)
  have j: "pf_id (files uploadedJ ! 0) = api_id (snapshotJ StProcessing 50 (Date 172800000))"
    by (simp add: uploadedJ_files snapshotJ_def)
  show ?thesis
    using i j poll_update_overwrites_progress [OF i j, of "Some ''J''" Processing "''J''"]
    by (simp add: snapshotJ_def)
qed

text \<open>
  C4, as stated, fails: the job \<open>J\<close> is stored with status \<open>processing\<close> and progress 50; a
  snapshot with status \<open>processing\<close> and progress 30 arrives; the stored progress becomes 30.
\<close>

theorem progress_regresses_counterexample:
  "map pf_status (files (pollFile (Some ''J'') Processing ''J''
       (Inr (snapshotJ StProcessing 50 (Date 172800000))) uploadedJ)) = [StProcessing]
   \<and> map pf_progress (files (pollFile (Some ''J'') Processing ''J''
       (Inr (snapshotJ StProcessing 50 (Date 172800000))) uploadedJ)) = [50]
   \<and> map pf_status (files (pollFile (Some ''J'') Processing ''J''
       (Inr (snapshotJ StProcessing 30 (Date 172800000)))
       (pollFile (Some ''J'') Processing ''J''
          (Inr (snapshotJ StProcessing 50 (Date 172800000))) uploadedJ))) = [StProcessing]
   \<and> map pf_progress (files (pollFile (Some ''J'') Processing ''J''
       (Inr (snapshotJ StProcessing 30 (Date 172800000)))
       (pollFile (Some ''J'') Processing ''J''
          (Inr (snapshotJ StProcessing 50 (Date 172800000))) uploadedJ))) = [30]"
  by (simp add: files_pollFile_success uploadedJ_files snapshotJ_def
      convertApiFileToProcessedFile_def)

section \<open>The polling hook\<close>

text \<open>
  C2, as the code has it. In \<open>useFilePolling\<close>, every failed fetch increments
  \<open>retryCount\<close>. While the new count is below 3 the interval stays armed and the caller's
  state is untouched. When the new count reaches 3 the hook clears its interval, calls
  \<open>onError\<close> with the error if the caller gave one (it writes no job status itself), and
  no later tick sends a request.
\<close>

theorem failure_counts_and_stops_at_ceiling:
  "retryCount (pollFileStatus_resume opts (Inl e) p) = retryCount p + 1
   \<and> (retryCount p + 1 < 3 \<longrightarrow>
        intervalRef (pollFileStatus_resume opts (Inl e) p) = intervalRef p
        \<and> host (pollFileStatus_resume opts (Inl e) p) = host p)
   \<and> (retryCount p + 1 \<ge> 3 \<longrightarrow>
        intervalRef (pollFileStatus_resume opts (Inl e) p) = None
        \<and> host (pollFileStatus_resume opts (Inl e) p) =
            (case onError opts of Some h \<Rightarrow> h e (host p) | None \<Rightarrow> host p)
        \<and> pollerRun opts (replicate n Tick) (pollFileStatus_resume opts (Inl e) p) =
            pollFileStatus_resume opts (Inl e) p)"
proof -
  define p' where "p' = pollFileStatus_resume opts (Inl e) p"
  have count: "retryCount p' = retryCount p + 1"
    by (simp add: p'_def pollFileStatus_resume_failure)
  have below: "retryCount p + 1 < 3 \<Longrightarrow> intervalRef p' = intervalRef p \<and> host p' = host p"
    by (simp add: p'_def pollFileStatus_resume_failure)
  have reached: "retryCount p + 1 \<ge> 3 \<Longrightarrow> intervalRef p' = None
      \<and> host p' = (case onError opts of Some h \<Rightarrow> h e (host p) | None \<Rightarrow> host p)"
    by (simp add: p'_def pollFileStatus_resume_failure)
  have quiet: "retryCount p + 1 \<ge> 3 \<Longrightarrow> pollerRun opts (replicate n Tick) p' = p'"
    using reached by (simp add: ticks_without_interval)
  from count below reached quiet show ?thesis
    unfolding p'_def by blast
qed

theorem failure_counts_and_stops_at_ceiling_witness:
  "retryCount (useFilePolling_effect pollingJ (newPoller uploadedJ)) + 1 < 3
   \<and> intervalRef (pollFileStatus_resume pollingJ (Inl (ApiError ''timeout''))
        (useFilePolling_effect pollingJ (newPoller uploadedJ))) = Some 2000
   \<and> retryCount ((useFilePolling_effect pollingJ (newPoller uploadedJ))\<lparr>retryCount := 2\<rparr>) + 1 \<ge> 3
   \<and> intervalRef (pollFileStatus_resume pollingJ (Inl (ApiError ''timeout''))
        ((useFilePolling_effect pollingJ (newPoller uploadedJ))\<lparr>retryCount := 2\<rparr>)) = None
   \<and> pollerRun pollingJ (replicate 5 Tick)
        (pollFileStatus_resume pollingJ (Inl (ApiError ''timeout''))
           ((useFilePolling_effect pollingJ (newPoller uploadedJ))\<lparr>retryCount := 2\<rparr>)) =
      pollFileStatus_resume pollingJ (Inl (ApiError ''timeout''))
        ((useFilePolling_effect pollingJ (newPoller uploadedJ))\<lparr>retryCount := 2\<rparr>)"
proof -
  have start: "retryCount (useFilePolling_effect pollingJ (newPoller uploadedJ)) = 0"
    "intervalRef (useFilePolling_effect pollingJ (newPoller uploadedJ)) = Some 2000"
    by (simp_all add: useFilePolling_effect_def pollingJ_def newPoller_def
        pollFileStatus_call_def Let_def)
  show ?thesis
    using start
      failure_counts_and_stops_at_ceiling
        [of pollingJ "ApiError ''timeout''" "useFilePolling_effect pollingJ (newPoller uploadedJ)" 5]
      failure_counts_and_stops_at_ceiling
        [of pollingJ "ApiError ''timeout''"
            "(useFilePolling_effect pollingJ (newPoller uploadedJ))\<lparr>retryCount := 2\<rparr>" 5]
    by simp
qed

text \<open>
  C2, as stated, fails. The hook polls job \<open>J\<close> with the registry write of \<open>App\<close> as
  \<open>onUpdate\<close> and no \<open>onError\<close>; three fetches in a row fail. The interval is cleared, and the
  job is still stored with status \<open>processing\<close>. The inline poller of \<open>App\<close> stops at the
  first failure (the id leaves \<open>processingFileIds\<close>, so no tick sends a request any more),
  and it too leaves the stored status at \<open>processing\<close>.
\<close>

theorem failed_polling_leaves_status_counterexample:
  "retryCount (pollerRun pollingJ
       [Response (Inl (ApiError ''timeout'')), Tick, Response (Inl (ApiError ''timeout'')), Tick,
        Response (Inl (ApiError ''timeout''))]
       (useFilePolling_effect pollingJ (newPoller uploadedJ))) = 3
   \<and> intervalRef (pollerRun pollingJ
       [Response (Inl (ApiError ''timeout'')), Tick, Response (Inl (ApiError ''timeout'')), Tick,
        Response (Inl (ApiError ''timeout''))]
       (useFilePolling_effect pollingJ (newPoller uploadedJ))) = None
   \<and> map pf_status (files (host (pollerRun pollingJ
       [Response (Inl (ApiError ''timeout'')), Tick, Response (Inl (ApiError ''timeout'')), Tick,
        Response (Inl (ApiError ''timeout''))]
       (useFilePolling_effect pollingJ (newPoller uploadedJ))))) = [StProcessing]
   \<and> map pf_status (files (pollFile (Some ''J'') Processing ''J'' (Inl (ApiError ''timeout''))
       (pollFile_send ''J'' uploadedJ))) = [StProcessing]
   \<and> pollingIntervalTick ''J'' (pollFile (Some ''J'') Processing ''J'' (Inl (ApiError ''timeout''))
       (pollFile_send ''J'' uploadedJ)) =
     pollFile (Some ''J'') Processing ''J'' (Inl (ApiError ''timeout'')) (pollFile_send ''J'' uploadedJ)"
  by (simp add: useFilePolling_effect_def pollingJ_def newPoller_def pollFileStatus_call_def
      pollFileStatus_resume_failure files_pollFile_failure pollFile_send_def uploadedJ_files
      pollingIntervalTick_def pollFile_def Let_def)

text \<open>
  C5. In \<open>useFilePolling\<close>, every successful fetch sets \<open>retryCount\<close> to 0 and hands the
  snapshot to \<open>onUpdate\<close> (and then to \<open>onComplete\<close>, when the status is \<open>completed\<close> and the
  caller gave one). When the status is \<open>completed\<close> or \<open>error\<close> the hook clears its interval
  and no later tick sends a request; when it is \<open>processing\<close> the interval is left as it
  is. So a hook that starts, fails twice and then receives a \<open>processing\<close> snapshot has
  \<open>retryCount = 0\<close>, its interval armed, and sends a request at the next tick.
\<close>

theorem success_resets_retries:
  "retryCount (pollFileStatus_resume opts (Inr snapshot) p) = 0
   \<and> host (pollFileStatus_resume opts (Inr snapshot) p) =
       (if api_status snapshot = StCompleted
        then (case onComplete opts of
                Some h \<Rightarrow> h snapshot (onUpdate opts snapshot (host p))
              | None \<Rightarrow> onUpdate opts snapshot (host p))
        else onUpdate opts snapshot (host p))
   \<and> (api_status snapshot = StCompleted \<or> api_status snapshot = StError \<longrightarrow>
        intervalRef (pollFileStatus_resume opts (Inr snapshot) p) = None
        \<and> pollerRun opts (replicate n Tick) (pollFileStatus_resume opts (Inr snapshot) p) =
            pollFileStatus_resume opts (Inr snapshot) p)
   \<and> (api_status snapshot = StProcessing \<longrightarrow>
        intervalRef (pollFileStatus_resume opts (Inr snapshot) p) = intervalRef p)
   \<and> (api_status snapshot = StProcessing \<and> enabled opts \<and> fileId opts \<noteq> [] \<longrightarrow>
        (let q = pollerRun opts [Response (Inl ea), Tick, Response (Inl eb), Tick, Response (Inr snapshot)]
                   (useFilePolling_effect opts (newPoller h))
         in retryCount q = 0 \<and> intervalRef q = Some (interval opts) \<and> \<not> isPollingRef q
            \<and> inFlight (pollerStep opts Tick q) = 1))"
proof -
  have cancelled: "api_status snapshot = StCompleted \<or> api_status snapshot = StError
      \<Longrightarrow> intervalRef (pollFileStatus_resume opts (Inr snapshot) p) = None"
    by (auto simp add: pollFileStatus_resume_success)
  have stop: "api_status snapshot = StCompleted \<or> api_status snapshot = StError
      \<Longrightarrow> pollerRun opts (replicate n Tick) (pollFileStatus_resume opts (Inr snapshot) p) =
            pollFileStatus_resume opts (Inr snapshot) p"
    using cancelled by (rule ticks_without_interval)
  have scen: "api_status snapshot = StProcessing \<and> enabled opts \<and> fileId opts \<noteq> [] \<Longrightarrow>
        (let q = pollerRun opts [Response (Inl ea), Tick, Response (Inl eb), Tick, Response (Inr snapshot)]
                   (useFilePolling_effect opts (newPoller h))
         in retryCount q = 0 \<and> intervalRef q = Some (interval opts) \<and> \<not> isPollingRef q
            \<and> inFlight (pollerStep opts Tick q) = 1)"
    by (simp add: useFilePolling_effect_def newPoller_def pollFileStatus_call_def
        pollFileStatus_resume_failure pollFileStatus_resume_success Let_def)
  show ?thesis
    using cancelled stop scen by (simp add: pollFileStatus_resume_success)
qed

theorem success_resets_retries_witness:
  "api_status (snapshotJ StCompleted 100 (Date 172800000)) = StCompleted
   \<and> intervalRef (pollFileStatus_resume pollingJ (Inr (snapshotJ StCompleted 100 (Date 172800000)))
        (useFilePolling_effect pollingJ (newPoller uploadedJ))) = None
   \<and> map pf_progress (files (host (pollFileStatus_resume pollingJ
        (Inr (snapshotJ StCompleted 100 (Date 172800000)))
        (useFilePolling_effect pollingJ (newPoller uploadedJ))))) = [100]
   \<and> api_status (snapshotJ StProcessing 40 (Date 172800000)) = StProcessing
   \<and> enabled pollingJ \<and> fileId pollingJ \<noteq> []
   \<and> retryCount (pollerRun pollingJ
        [Response (Inl (ApiError ''timeout'')), Tick, Response (Inl (ApiError ''reset'')), Tick,
         Response (Inr (snapshotJ StProcessing 40 (Date 172800000)))]
        (useFilePolling_effect pollingJ (newPoller uploadedJ))) = 0
   \<and> intervalRef (pollerRun pollingJ
        [Response (Inl (ApiError ''timeout'')), Tick, Response (Inl (ApiError ''reset'')), Tick,
         Response (Inr (snapshotJ StProcessing 40 (Date 172800000)))]
        (useFilePolling_effect pollingJ (newPoller uploadedJ))) = Some 2000"
proof -
  have st: "api_status (snapshotJ StCompleted 100 (Date 172800000)) = StCompleted"
    "api_status (snapshotJ StProcessing 40 (Date 172800000)) = StProcessing"
    by (simp_all add: snapshotJ_def)
  have on: "enabled pollingJ \<and> fileId pollingJ \<noteq> []" "interval pollingJ = 2000"
    "onComplete pollingJ = None" "onUpdate pollingJ = updateFileData"
    by (simp_all add: pollingJ_def)
  have reg: "map pf_progress (files (updateFileData (snapshotJ StCompleted 100 (Date 172800000))
               (host (useFilePolling_effect pollingJ (newPoller uploadedJ))))) = [100]"
    by (simp add: useFilePolling_effect_def pollingJ_def newPoller_def pollFileStatus_call_def
        updateFileData_def uploadedJ_files snapshotJ_def convertApiFileToProcessedFile_def Let_def)
  show ?thesis
    using st on reg
      success_resets_retries
        [where opts = pollingJ and snapshot = "snapshotJ StCompleted 100 (Date 172800000)"
           and p = "useFilePolling_effect pollingJ (newPoller uploadedJ)" and n = 1]
      success_resets_retries
        [where opts = pollingJ and snapshot = "snapshotJ StProcessing 40 (Date 172800000)"
           and ea = "ApiError ''timeout''" and eb = "ApiError ''reset''" and h = uploadedJ]
    by (simp add: Let_def)
qed

text \<open>
  C10. In \<open>useFilePolling\<close>, whatever the answer of the request (a snapshot or a thrown
  error), the in-flight flag is false once \<open>pollFileStatus\<close> has finished; so, if the
  interval is still armed, the next tick is not skipped: it sends a request.
\<close>

theorem in_flight_flag_always_cleared:
  "\<not> isPollingRef (pollFileStatus_resume opts r p)
   \<and> (intervalRef (pollFileStatus_resume opts r p) \<noteq> None \<longrightarrow>
        inFlight (pollerStep opts Tick (pollFileStatus_resume opts r p)) =
          inFlight (pollFileStatus_resume opts r p) + 1)"
proof -
  have flag: "\<not> isPollingRef (pollFileStatus_resume opts r p)"
    by (simp add: pollFileStatus_resume_def pollFileStatus_finally_def Let_def)
  then show ?thesis
    by (auto simp add: pollFileStatus_call_def)
qed

theorem in_flight_flag_always_cleared_witness:
  "isPollingRef (useFilePolling_effect pollingJ (newPoller uploadedJ))
   \<and> \<not> isPollingRef (pollFileStatus_resume pollingJ (Inl (ApiError ''timeout''))
          (useFilePolling_effect pollingJ (newPoller uploadedJ)))
   \<and> intervalRef (pollFileStatus_resume pollingJ (Inl (ApiError ''timeout''))
          (useFilePolling_effect pollingJ (newPoller uploadedJ))) \<noteq> None
   \<and> inFlight (pollerStep pollingJ Tick (pollFileStatus_resume pollingJ (Inl (ApiError ''timeout''))
          (useFilePolling_effect pollingJ (newPoller uploadedJ)))) = 1"
proof -
  have start: "isPollingRef (useFilePolling_effect pollingJ (newPoller uploadedJ))"
    "intervalRef (useFilePolling_effect pollingJ (newPoller uploadedJ)) = Some 2000"
    "retryCount (useFilePolling_effect pollingJ (newPoller uploadedJ)) = 0"
    "inFlight (useFilePolling_effect pollingJ (newPoller uploadedJ)) = 1"
    by (simp_all add: useFilePolling_effect_def pollingJ_def newPoller_def
        pollFileStatus_call_def Let_def)
  have armed: "intervalRef (pollFileStatus_resume pollingJ (Inl (ApiError ''timeout''))
          (useFilePolling_effect pollingJ (newPoller uploadedJ))) = Some 2000"
    "inFlight (pollFileStatus_resume pollingJ (Inl (ApiError ''timeout''))
          (useFilePolling_effect pollingJ (newPoller uploadedJ))) = 0"
    by (simp_all add: pollFileStatus_resume_failure start)
  show ?thesis
    using start armed
      in_flight_flag_always_cleared
        [of pollingJ "Inl (ApiError ''timeout'')" "useFilePolling_effect pollingJ (newPoller uploadedJ)"]
    by simp
qed

section \<open>Retention\<close>

text \<open>
  C9, as the code has it. A job uploaded when \<open>Date.now()\<close> reads \<open>t\<close> is stored with
  \<open>expiryDate = t + 2 days\<close> (172800000 ms), and a sweep run on that state evicts it exactly
  when the sweep time is at or past \<open>t + 2 days\<close> and the delete succeeded. The stored date
  is not fixed, though: a successful poll replaces it with the \<open>expiry_date\<close> of the
  snapshot, and from then on a sweep evicts the job exactly when the sweep time is at or
  past that date and the delete succeeded.
\<close>

theorem expiry_from_upload_until_next_snapshot:
  assumes fresh: "fid \<notin> pf_id ` set (files s)"
  shows "(let s' = handleFilesUploaded_single (Inr fid) fname fsize tNew tNow s
          in pf_id (last (files s')) = fid
             \<and> expiryDate (last (files s')) = Date (tNow + 172800000)
             \<and> (fid \<in> pf_id ` set (files (useAutoCleanup (Date n) deleteFile s'))
                  \<longleftrightarrow> \<not> (tNow + 172800000 \<le> n \<and> deleteFile fid = Inr ()))
             \<and> (api_id apiFile = fid \<longrightarrow>
                  expiryDate (last (files (pollFile c v fid (Inr apiFile) s'))) = api_expiry_date apiFile
                  \<and> (fid \<in> pf_id ` set (files (useAutoCleanup (Date n) deleteFile
                                                 (pollFile c v fid (Inr apiFile) s')))
                       \<longleftrightarrow> \<not> (date_ge (Date n) (api_expiry_date apiFile) \<and> deleteFile fid = Inr ()))))"
proof -
  define s' where "s' = handleFilesUploaded_single (Inr fid) fname fsize tNew tNow s"
  define s'' where "s'' = pollFile c v fid (Inr apiFile) s'"
  have a: "pf_id (last (files s')) = fid \<and> expiryDate (last (files s')) = Date (tNow + 172800000)"
    by (simp add: s'_def files_handleFilesUploaded_single)
  have b: "fid \<in> pf_id ` set (files (useAutoCleanup (Date n) deleteFile s'))
             \<longleftrightarrow> \<not> (tNow + 172800000 \<le> n \<and> deleteFile fid = Inr ())"
    using fresh unfolding s'_def ids_useAutoCleanup files_handleFilesUploaded_single
    by auto
  have c: "api_id apiFile = fid \<Longrightarrow> expiryDate (last (files s'')) = api_expiry_date apiFile"
    by (simp add: s''_def s'_def files_pollFile_success files_handleFilesUploaded_single
        convertApiFileToProcessedFile_def)
  have d: "api_id apiFile = fid \<Longrightarrow>
             fid \<in> pf_id ` set (files (useAutoCleanup (Date n) deleteFile s''))
             \<longleftrightarrow> \<not> (date_ge (Date n) (api_expiry_date apiFile) \<and> deleteFile fid = Inr ())"
    using fresh
    unfolding s''_def s'_def ids_useAutoCleanup files_pollFile_success files_handleFilesUploaded_single
    by (auto simp add: convertApiFileToProcessedFile_def)
  from a b c d show ?thesis
    unfolding s'_def s''_def Let_def by blast
qed

theorem expiry_from_upload_until_next_snapshot_witness:
  "''J'' \<notin> pf_id ` set (files initialAppState)
   \<and> expiryDate (last (files uploadedJ)) = Date 172800000
   \<and> ''J'' \<in> pf_id ` set (files (useAutoCleanup (Date 172799000) (\<lambda>fid. Inr ()) uploadedJ))
   \<and> api_id (snapshotJ StProcessing 10 (Date 1000)) = ''J''
   \<and> expiryDate (last (files (pollFile (Some ''J'') Processing ''J''
        (Inr (snapshotJ StProcessing 10 (Date 1000))) uploadedJ))) = Date 1000"
proof -
  have fresh: "''J'' \<notin> pf_id ` set (files initialAppState)"
    by (simp add: initialAppState_def)
  have snap: "api_id (snapshotJ StProcessing 10 (Date 1000)) = ''J''"
    "api_expiry_date (snapshotJ StProcessing 10 (Date 1000)) = Date 1000"
    by (simp_all add: snapshotJ_def)
  show ?thesis
    using fresh snap
      expiry_from_upload_until_next_snapshot
        [OF fresh, where fname = "''J.pdf''" and fsize = 1024 and tNew = 0 and tNow = 0
           and n = 172799000 and deleteFile = "\<lambda>fid. Inr ()"
           and apiFile = "snapshotJ StProcessing 10 (Date 1000)"
           and c = "Some ''J''" and v = Processing]
    by (simp add: uploadedJ_def Let_def)
qed

text \<open>
  C9, as stated, fails: job \<open>J\<close> is created at time 0 with \<open>expiryDate\<close> two days later; the
  first poll returns a snapshot whose \<open>expiry_date\<close> is 1000; a sweep at time 2000, long
  before the two days are over, removes the job.
\<close>

theorem expiry_replaced_by_snapshot_counterexample:
  "map expiryDate (files uploadedJ) = [Date 172800000]
   \<and> map expiryDate (files (pollFile (Some ''J'') Processing ''J''
        (Inr (snapshotJ StProcessing 10 (Date 1000))) uploadedJ)) = [Date 1000]
   \<and> files (useAutoCleanup (Date 2000) (\<lambda>fid. Inr ())
        (pollFile (Some ''J'') Processing ''J''
           (Inr (snapshotJ StProcessing 10 (Date 1000))) uploadedJ)) = []"
  by (simp add: useAutoCleanup_def files_onFileDeleted files_pollFile_success
      uploadedJ_files snapshotJ_def convertApiFileToProcessedFile_def)

section \<open>Overlapping requests of the inline poller\<close>

text \<open>
  C3 on the inline poller of \<open>App\<close>, which has no in-flight flag: job \<open>J\<close> is uploaded, the
  polling effect sends the first status request, and the interval fires while that
  request is unanswered. Two requests for \<open>J\<close> are then in flight.
\<close>

theorem pollFile_overlapping_fetches:
  "pendingFetches (pollingEffect uploadedJ) ''J'' = 1
   \<and> pendingFetches (pollingIntervalTick ''J'' (pollingEffect uploadedJ)) ''J'' = 2"
  by (simp add: pollingEffect_def pollingIntervalTick_def pollFile_send_def uploadedJ_view)

end
